theory Spec2Isabelle
  imports Complex_Main "HOL-Library.Multiset"
begin

section \<open>CoinSniper: admission and position lifecycle\<close>

text \<open>
  A shallow embedding of the parts of the sniper that decide whether a token is traded,
  how large the position is, how candidates are queued and how an open trade is monitored
  (\<^verbatim>\<open>MemecoinSniper\<close>), and of the analyzer's profit-potential formula
  (\<^verbatim>\<open>TokenAnalyzer.calculateProfitPotential\<close>).

  JavaScript numbers are modelled as exact real numbers: the rounding of IEEE doubles, the
  values \<^verbatim>\<open>NaN\<close> and \<^verbatim>\<open>Infinity\<close>, and a division by an
  entry price of zero are outside the model. A value that may be \<^verbatim>\<open>undefined\<close>
  is an \<open>option\<close>. External collaborators (price source, trade executor) are
  parameters of the functions that call them; every \<^verbatim>\<open>try/catch\<close> of the
  source is a branch of the model.
\<close>

subsection \<open>TokenAnalyzer: profit potential\<close>

text \<open>
  The fields of the analysis object that \<^verbatim>\<open>calculateProfitPotential\<close> reads:
  \<^verbatim>\<open>analysis.score\<close>, \<^verbatim>\<open>analysis.social.score\<close> and
  \<^verbatim>\<open>analysis.risk\<close> (by then the numeric risk score).
\<close>

record fullAnalysis =
  score :: real
  socialScore :: real
  risk :: real

text \<open>\<^verbatim>\<open>Math.round\<close>: the nearest integer, halves rounded up.\<close>

definition mathRound :: "real \<Rightarrow> int" where
  "mathRound x = \<lfloor>x + 1 / 2\<rfloor>"

definition calculateProfitPotential :: "fullAnalysis \<Rightarrow> int" where
  "calculateProfitPotential analysis =
     (let potential = 200;
          potential = (if score analysis > 80 then potential * 2 else potential);
          potential = (if score analysis > 90 then potential * 1.5 else potential);
          potential = (if socialScore analysis > 80 then potential * 1.3 else potential);
          potential = (if risk analysis < 20 then potential * 1.2 else potential)
      in mathRound potential)"

subsection \<open>MemecoinSniper: trading decision and position size\<close>

text \<open>
  The configuration values read by the sniper (\<^verbatim>\<open>config.trading\<close> and
  \<^verbatim>\<open>config.sniper\<close>); \<^verbatim>\<open>config.json\<close> itself is not part of the
  sources, so the values are parameters.
\<close>

record config =
  minLiquidity :: real
  minBuyAmount :: real
  maxBuyAmount :: real
  stopLoss :: real
  maxConcurrentTrades :: nat

text \<open>
  The analysis object that \<^verbatim>\<open>performDetailedAnalysis\<close> hands to
  \<^verbatim>\<open>makeTradingDecision\<close> is the one \<^verbatim>\<open>performFullAnalysis\<close> builds:
  \<^verbatim>\<open>{contract, liquidity, social, trading, risk, ...}\<close>. Of it, the contract
  analysis with its verification and audit flags, and the liquidity analysis with its
  amount, are kept here.
\<close>

record contractAnalysis =
  isVerified :: bool
  isAudited :: bool

record liquidityAnalysis =
  amount :: real

record analysis =
  contract :: contractAnalysis
  liquidity :: liquidityAnalysis

text \<open>
  The decision reads \<^verbatim>\<open>analysis.isVerified\<close> and
  \<^verbatim>\<open>analysis.isAudited\<close>. The analysis object has no properties of these
  names (the flags are \<^verbatim>\<open>analysis.contract.isVerified\<close> and
  \<^verbatim>\<open>analysis.contract.isAudited\<close>), so both reads yield
  \<^verbatim>\<open>undefined\<close>.
\<close>

definition analysisIsVerified :: "analysis \<Rightarrow> bool option" where
  "analysisIsVerified a = None"

definition analysisIsAudited :: "analysis \<Rightarrow> bool option" where
  "analysisIsAudited a = None"

text \<open>\<^verbatim>\<open>!v\<close> for a value that is a boolean or \<^verbatim>\<open>undefined\<close>.\<close>

definition jsNot :: "bool option \<Rightarrow> bool" where
  "jsNot v = (case v of None \<Rightarrow> True | Some b \<Rightarrow> \<not> b)"

text \<open>
  The decision compares \<^verbatim>\<open>analysis.liquidity\<close>, an object, with the configured
  number. An object converts to \<^verbatim>\<open>NaN\<close>, and every comparison with
  \<^verbatim>\<open>NaN\<close> is false.
\<close>

definition liquidityBelow :: "liquidityAnalysis \<Rightarrow> real \<Rightarrow> bool" where
  "liquidityBelow l m = False"

text \<open>
  \<^verbatim>\<open>makeTradingDecision(analysis, sentiment, riskScore, profitPotential)\<close>; the
  sentiment argument is represented by its \<^verbatim>\<open>score\<close> field, the only one read.
\<close>

definition makeTradingDecision :: "config \<Rightarrow> analysis \<Rightarrow> real \<Rightarrow> real \<Rightarrow> real \<Rightarrow> bool" where
  "makeTradingDecision cfg a sentimentScore riskScore profitPotential =
     (if riskScore > 70 then False
      else if profitPotential < 200 then False
      else if sentimentScore < 60 then False
      else if jsNot (analysisIsVerified a) \<and> jsNot (analysisIsAudited a) then False
      else if liquidityBelow (liquidity a) (minLiquidity cfg) then False
      else True)"

definition calculatePositionSize :: "config \<Rightarrow> real \<Rightarrow> real \<Rightarrow> real" where
  "calculatePositionSize cfg profitPotential rsk =
     (let baseSize = minBuyAmount cfg;
          maxSize = maxBuyAmount cfg;
          sz = baseSize;
          sz = (if profitPotential > 500 then sz * 1.5 else sz);
          sz = (if profitPotential > 1000 then sz * 2 else sz);
          sz = (if rsk < 30 then sz * 1.2 else sz);
          sz = (if rsk > 50 then sz * 0.8 else sz)
      in min sz maxSize)"

subsection \<open>MemecoinSniper: candidate queue\<close>

record token =
  address :: string
  symbol :: string

text \<open>
  An element of \<^verbatim>\<open>tokenQueue\<close>, the object
  \<^verbatim>\<open>{token, network, timestamp, initialScore}\<close> pushed by
  \<^verbatim>\<open>analyzeAndQueueToken\<close>. The first three fields carry the prefix
  \<open>entry\<close> here, since a trade has fields of the same names.
\<close>

record queueEntry =
  entryToken :: token
  entryNetwork :: string
  entryTimestamp :: int
  initialScore :: nat

text \<open>
  The duplicate test of \<^verbatim>\<open>analyzeAndQueueToken\<close> reads \<^verbatim>\<open>t.address\<close>
  of a queue element. A queue element has no property of that name (the address is
  \<^verbatim>\<open>t.token.address\<close>), so the read yields \<^verbatim>\<open>undefined\<close>.
\<close>

definition entryAddress :: "queueEntry \<Rightarrow> string option" where
  "entryAddress t = None"

text \<open>
  The results of the four quick checks. Each check of the analyzer catches its own errors
  and answers with a pessimistic default; the contract age may be
  \<^verbatim>\<open>Infinity\<close>, which is \<open>None\<close> here.
\<close>

record quickChecks =
  isHoneypot :: bool
  hasLiquidity :: bool
  contractAge :: "real option"
  ownershipRenounced :: bool

text \<open>
  \<^verbatim>\<open>performQuickAnalysis\<close> returns \<^verbatim>\<open>isPromising\<close> and
  \<^verbatim>\<open>score\<close>. The argument \<open>None\<close> is the \<^verbatim>\<open>catch\<close> branch (no
  analyzer for the network, or a check that rejects).
\<close>

definition performQuickAnalysis :: "quickChecks option \<Rightarrow> bool \<times> nat" where
  "performQuickAnalysis checks =
     (case checks of
        None \<Rightarrow> (False, 0)
      | Some c \<Rightarrow>
          (let sc = 0;
               sc = (if \<not> isHoneypot c then sc + 30 else sc);
               sc = (if hasLiquidity c then sc + 25 else sc);
               sc = (case contractAge c of
                       None \<Rightarrow> sc
                     | Some age \<Rightarrow> if age \<le> 300 then sc + 20 else sc);
               sc = (if ownershipRenounced c then sc + 25 else sc)
           in (sc \<ge> 70 \<and> \<not> isHoneypot c \<and> hasLiquidity c, sc)))"

text \<open>The comparator of \<^verbatim>\<open>processTokenQueue\<close>: score descending, then timestamp ascending.\<close>

definition compareEntries :: "queueEntry \<Rightarrow> queueEntry \<Rightarrow> int" where
  "compareEntries a b =
     (if initialScore b \<noteq> initialScore a then int (initialScore b) - int (initialScore a)
      else entryTimestamp a - entryTimestamp b)"

text \<open>
  \<^verbatim>\<open>Array.prototype.sort\<close> is stable; a stable insertion sort under the comparator
  gives the same order.
\<close>

fun insertEntry :: "queueEntry \<Rightarrow> queueEntry list \<Rightarrow> queueEntry list" where
  "insertEntry x [] = [x]"
| "insertEntry x (y # ys) =
     (if compareEntries x y \<le> 0 then x # y # ys else y # insertEntry x ys)"

definition sortQueue :: "queueEntry list \<Rightarrow> queueEntry list" where
  "sortQueue q = foldr insertEntry q []"

text \<open>
  \<^verbatim>\<open>processTokenQueue\<close> sorts the queue in place and shifts its first element, which
  goes to the detailed analysis. The result is the queue left and the element taken.
\<close>

definition processTokenQueue :: "queueEntry list \<Rightarrow> queueEntry list \<times> queueEntry option" where
  "processTokenQueue q =
     (if q = [] then (q, None)
      else (case sortQueue q of
              [] \<Rightarrow> ([], None)
            | e # rest \<Rightarrow> (rest, Some e)))"

text \<open>
  \<^verbatim>\<open>analyzeAndQueueToken(token, network)\<close> on the queue \<open>q\<close>, at time \<open>now\<close>
  (\<^verbatim>\<open>Date.now()\<close>), with the outcome \<open>checks\<close> of the quick checks.
\<close>

definition analyzeAndQueueToken ::
  "config \<Rightarrow> int \<Rightarrow> quickChecks option \<Rightarrow> queueEntry list \<Rightarrow> token \<Rightarrow> string
     \<Rightarrow> queueEntry list \<times> queueEntry option" where
  "analyzeAndQueueToken cfg now checks q tok net =
     (if list_ex (\<lambda>t. entryAddress t = Some (address tok)) q then (q, None)
      else
        (case performQuickAnalysis checks of
           (isPromising, sc) \<Rightarrow>
             if isPromising then
               (let q' = q @ [\<lparr>entryToken = tok, entryNetwork = net,
                               entryTimestamp = now, initialScore = sc\<rparr>]
                in if length q' \<le> maxConcurrentTrades cfg then processTokenQueue q'
                   else (q', None))
             else (q, None)))"

subsection \<open>MemecoinSniper: monitoring of active trades\<close>

type_synonym tradeHash = string

text \<open>
  A profit target \<^verbatim>\<open>{percentage, size, hit}\<close>; \<^verbatim>\<open>hit\<close> is absent (falsy)
  until it is set to \<^verbatim>\<open>true\<close>.
\<close>

record target =
  percentage :: real
  size' :: real
  hit :: bool

text \<open>
  The fields of an active trade that monitoring reads or writes.
  \<^verbatim>\<open>executeTrade\<close> creates the object without \<^verbatim>\<open>currentPrice\<close> and
  \<^verbatim>\<open>currentProfit\<close>; \<^verbatim>\<open>monitorTrade\<close> sets them at the end of a tick.
\<close>

record trade =
  token :: token
  network :: string
  entryPrice :: real
  positionSize :: real
  timestamp :: int
  profitPotential :: real
  currentPrice :: "real option"
  currentProfit :: "real option"

text \<open>
  The three maps of the sniper, and the requests \<^verbatim>\<open>executeSell(address, amount)\<close>
  sent to the executor so far, oldest first. \<^verbatim>\<open>activeTrades\<close> keeps its insertion
  order, in which it is iterated.
\<close>

record sniper =
  activeTrades :: "(tradeHash \<times> trade) list"
  profitTargets :: "tradeHash \<rightharpoonup> target list"
  stopLosses :: "tradeHash \<rightharpoonup> real"
  sells :: "(string \<times> real) list"

text \<open>
  The trade executor. \<open>executorReady net\<close>: an executor and a gas price exist for the
  network, so that the request is sent. \<open>executeSell n\<close>: the outcome of the request
  number \<open>n\<close> (counted from 0).
\<close>

datatype sellResult = SellSuccess | SellFailure | SellThrows

record executor =
  executorReady :: "string \<Rightarrow> bool"
  executeSell :: "nat \<Rightarrow> sellResult"

definition setProfitTargets :: "config \<Rightarrow> sniper \<Rightarrow> tradeHash \<Rightarrow> real \<Rightarrow> real \<Rightarrow> sniper" where
  "setProfitTargets cfg s tradeHash entry potential =
     (case map_of (activeTrades s) tradeHash of
        None \<Rightarrow> s
      | Some trade \<Rightarrow>
          s\<lparr>profitTargets := (profitTargets s)(tradeHash \<mapsto>
               [\<lparr>percentage = 50, size' = 0.3, hit = False\<rparr>,
                \<lparr>percentage = 100, size' = 0.3, hit = False\<rparr>,
                \<lparr>percentage = potential * 0.7, size' = 0.4, hit = False\<rparr>]),
            stopLosses := (stopLosses s)(tradeHash \<mapsto> entry * (1 - stopLoss cfg / 100))\<rparr>)"

definition closeTrade :: "sniper \<Rightarrow> tradeHash \<Rightarrow> sniper" where
  "closeTrade s tradeHash =
     s\<lparr>activeTrades := filter (\<lambda>(h, t). h \<noteq> tradeHash) (activeTrades s),
       profitTargets := (profitTargets s)(tradeHash := None),
       stopLosses := (stopLosses s)(tradeHash := None)\<rparr>"

text \<open>
  \<^verbatim>\<open>executePartialSell\<close> touches the trade object and the executor only. On success
  the log line reads \<^verbatim>\<open>trade.currentProfit.toFixed(2)\<close> before the position size is
  updated: while \<^verbatim>\<open>currentProfit\<close> is still undefined this throws, and the
  \<^verbatim>\<open>catch\<close> leaves the trade as it was.
\<close>

definition executePartialSell ::
  "executor \<Rightarrow> trade \<Rightarrow> real \<Rightarrow> (string \<times> real) list \<Rightarrow> trade \<times> (string \<times> real) list" where
  "executePartialSell ex trade pct sent =
     (if \<not> executorReady ex (network trade) then (trade, sent)
      else
        (let sellAmount = positionSize trade * pct;
             sent' = sent @ [(address (token trade), sellAmount)]
         in case executeSell ex (length sent) of
              SellThrows \<Rightarrow> (trade, sent')
            | SellFailure \<Rightarrow> (trade, sent')
            | SellSuccess \<Rightarrow>
                (case currentProfit trade of
                   None \<Rightarrow> (trade, sent')
                 | Some _ \<Rightarrow> (trade\<lparr>positionSize := positionSize trade - sellAmount\<rparr>, sent'))))"

text \<open>The loop of \<^verbatim>\<open>checkProfitTargets\<close> over the targets, in their order.\<close>

fun targetsLoop ::
  "executor \<Rightarrow> real \<Rightarrow> target list \<Rightarrow> trade \<times> (string \<times> real) list
     \<Rightarrow> target list \<times> trade \<times> (string \<times> real) list" where
  "targetsLoop ex gain [] st = ([], st)"
| "targetsLoop ex gain (t # ts) (trade, sent) =
     (if gain \<ge> percentage t \<and> \<not> hit t then
        (case targetsLoop ex gain ts (executePartialSell ex trade (size' t) sent) of
           (ts', st') \<Rightarrow> (t\<lparr>hit := True\<rparr> # ts', st'))
      else
        (case targetsLoop ex gain ts (trade, sent) of
           (ts', st') \<Rightarrow> (t # ts', st')))"

definition checkProfitTargets ::
  "executor \<Rightarrow> sniper \<Rightarrow> tradeHash \<Rightarrow> trade \<Rightarrow> real \<Rightarrow> real \<Rightarrow> trade \<times> sniper" where
  "checkProfitTargets ex s tradeHash trade price gain =
     (case profitTargets s tradeHash of
        None \<Rightarrow> (trade, s)
      | Some targets \<Rightarrow>
          (case targetsLoop ex gain targets (trade, sells s) of
             (targets', trade', sent') \<Rightarrow>
               (trade', s\<lparr>profitTargets := (profitTargets s)(tradeHash \<mapsto> targets'),
                          sells := sent'\<rparr>)))"

text \<open>
  \<^verbatim>\<open>executeStopLoss\<close> sells the whole position size; on success it logs
  \<^verbatim>\<open>trade.currentProfit.toFixed(2)\<close> first and closes the trade after that.
\<close>

definition executeStopLoss :: "executor \<Rightarrow> sniper \<Rightarrow> tradeHash \<Rightarrow> trade \<Rightarrow> sniper" where
  "executeStopLoss ex s tradeHash trade =
     (if \<not> executorReady ex (network trade) then s
      else
        (let s' = s\<lparr>sells := sells s @ [(address (token trade), positionSize trade)]\<rparr>
         in case executeSell ex (length (sells s)) of
              SellThrows \<Rightarrow> s'
            | SellFailure \<Rightarrow> s'
            | SellSuccess \<Rightarrow>
                (case currentProfit trade of
                   None \<Rightarrow> s'
                 | Some _ \<Rightarrow> closeTrade s' tradeHash)))"

text \<open>\<^verbatim>\<open>!stopLoss\<close> holds for a missing entry and for a stop-loss price of 0.\<close>

definition checkStopLoss ::
  "executor \<Rightarrow> sniper \<Rightarrow> tradeHash \<Rightarrow> trade \<Rightarrow> real \<Rightarrow> real \<Rightarrow> sniper" where
  "checkStopLoss ex s tradeHash trade price gain =
     (case stopLosses s tradeHash of
        None \<Rightarrow> s
      | Some sl \<Rightarrow>
          if sl = 0 then s
          else if price \<le> sl then executeStopLoss ex s tradeHash trade
          else s)"

text \<open>
  The trade object is shared with \<^verbatim>\<open>activeTrades\<close>: what a tick writes to it is
  seen through the map for as long as the trade is registered.
\<close>

definition storeTrade :: "sniper \<Rightarrow> tradeHash \<Rightarrow> trade \<Rightarrow> sniper" where
  "storeTrade s tradeHash trade =
     s\<lparr>activeTrades := map (\<lambda>(h, t). if h = tradeHash then (h, trade) else (h, t))
                            (activeTrades s)\<rparr>"

text \<open>
  \<^verbatim>\<open>monitorTrade(tradeHash, trade)\<close>, given the answer \<open>fetched\<close> of
  \<^verbatim>\<open>getCurrentPrice\<close>: \<open>None\<close> when the call fails or yields no value.
  \<^verbatim>\<open>!currentPrice\<close> also holds for a price of 0.
\<close>

definition monitorTrade ::
  "executor \<Rightarrow> real option \<Rightarrow> sniper \<Rightarrow> tradeHash \<Rightarrow> trade \<Rightarrow> sniper" where
  "monitorTrade ex fetched s tradeHash trade =
     (case fetched of
        None \<Rightarrow> s
      | Some price \<Rightarrow>
          if price = 0 then s
          else
            (let gain = ((price - entryPrice trade) / entryPrice trade) * 100
             in case checkProfitTargets ex s tradeHash trade price gain of
                  (trade1, s1) \<Rightarrow>
                    storeTrade (checkStopLoss ex s1 tradeHash trade1 price gain) tradeHash
                      (trade1\<lparr>currentPrice := Some price, currentProfit := Some gain\<rparr>)))"

text \<open>
  One round of \<^verbatim>\<open>startTradeMonitoring\<close> while the sniper is running: every
  trade registered when its turn comes is monitored, with the price the source
  \<open>getCurrentPrice\<close> gives for its token. Rounds are taken one after the other;
  rounds that overlap in time are outside the model.
\<close>

definition monitorActiveTrades :: "executor \<Rightarrow> (string \<Rightarrow> real option) \<Rightarrow> sniper \<Rightarrow> sniper" where
  "monitorActiveTrades ex getCurrentPrice s =
     fold (\<lambda>tradeHash s'.
             case map_of (activeTrades s') tradeHash of
               None \<Rightarrow> s'
             | Some trade \<Rightarrow>
                 monitorTrade ex (getCurrentPrice (address (token trade))) s' tradeHash trade)
          (map fst (activeTrades s)) s"

text \<open>Successive rounds, one price source for each.\<close>

fun runTicks :: "executor \<Rightarrow> (string \<Rightarrow> real option) list \<Rightarrow> sniper \<Rightarrow> sniper" where
  "runTicks ex [] s = s"
| "runTicks ex (p # ps) s = runTicks ex ps (monitorActiveTrades ex p s)"

subsection \<open>A position as in the specification's scenarios\<close>

text \<open>
  Entry price 100, position size 1, profit potential 200 and a configured stop loss of
  30 percent: \<^verbatim>\<open>setProfitTargets\<close> gives the ladder (50, 0.3), (100, 0.3), (140, 0.4)
  and the stop-loss price 70.
\<close>

definition cfg0 :: config where
  "cfg0 = \<lparr>minLiquidity = 1000, minBuyAmount = 1, maxBuyAmount = 10, stopLoss = 30,
           maxConcurrentTrades = 2\<rparr>"

definition token0 :: token where
  "token0 = \<lparr>address = ''0xT'', symbol = ''TKN''\<rparr>"

definition trade0 :: trade where
  "trade0 = \<lparr>token = token0, network = ''ethereum'', entryPrice = 100, positionSize = 1,
             timestamp = 0, profitPotential = 200, currentPrice = None,
             currentProfit = None\<rparr>"

definition sniper0 :: sniper where
  "sniper0 = setProfitTargets cfg0
     \<lparr>activeTrades = [(''0xh'', trade0)], profitTargets = Map.empty,
      stopLosses = Map.empty, sells = []\<rparr> ''0xh'' 100 200"

text \<open>An executor whose every request succeeds.\<close>

definition exOk :: executor where
  "exOk = \<lparr>executorReady = (\<lambda>n. True), executeSell = (\<lambda>n. SellSuccess)\<rparr>"

definition priceAt :: "real \<Rightarrow> string \<Rightarrow> real option" where
  "priceAt p a = Some p"

text \<open>An executor whose first request fails and whose later requests succeed.\<close>

definition exFirstFails :: executor where
  "exFirstFails = \<lparr>executorReady = (\<lambda>n. True),
                   executeSell = (\<lambda>n. if n = 0 then SellFailure else SellSuccess)\<rparr>"

text \<open>
  The position after a tick at price 100 and a tick at price 151, every request
  succeeding: the 50 percent target has fired.
\<close>

definition sniperD :: sniper where
  "sniperD = runTicks exOk [priceAt 100, priceAt 151] sniper0"

subsection \<open>Candidates, and an assessment as in the specification's scenarios\<close>

text \<open>A configuration whose maximum number of concurrent trades is 0.\<close>

definition cfgZero :: config where
  "cfgZero = \<lparr>minLiquidity = 1000, minBuyAmount = 1, maxBuyAmount = 10, stopLoss = 30,
              maxConcurrentTrades = 0\<rparr>"

definition tokenC :: token where
  "tokenC = \<lparr>address = ''0xC'', symbol = ''CCC''\<rparr>"

definition tokenD :: token where
  "tokenD = \<lparr>address = ''0xD'', symbol = ''DDD''\<rparr>"

definition checksOk :: quickChecks where
  "checksOk = \<lparr>isHoneypot = False, hasLiquidity = True, contractAge = Some 60,
               ownershipRenounced = True\<rparr>"

text \<open>The queue after the first submission to a new sniper (whose queue is empty).\<close>

definition queueAfterC :: "queueEntry list" where
  "queueAfterC = fst (analyzeAndQueueToken cfgZero 3 (Some checksOk) [] tokenC ''ethereum'')"

text \<open>
  Successive submissions, as the loop of \<^verbatim>\<open>scanForNewTokens\<close> makes them: each
  with its time, the outcome of its quick checks, its token and its network.
\<close>

fun submitAll ::
  "config \<Rightarrow> (int \<times> quickChecks option \<times> token \<times> string) list \<Rightarrow> queueEntry list
     \<Rightarrow> queueEntry list" where
  "submitAll cfg [] q = q"
| "submitAll cfg ((now, checks, tok, net) # rest) q =
     submitAll cfg rest (fst (analyzeAndQueueToken cfg now checks q tok net))"

text \<open>
  Scenario C as \<^verbatim>\<open>performFullAnalysis\<close> reports it: the contract verified and not
  audited, liquidity of 50000 (quality good) with a configured minimum of 1000.
\<close>

definition scenarioC :: analysis where
  "scenarioC = \<lparr>contract = \<lparr>isVerified = True, isAudited = False\<rparr>,
                liquidity = \<lparr>amount = 50000\<rparr>\<rparr>"

section \<open>Properties\<close>

subsection \<open>Profit potential\<close>

lemma mathRound_mono: "x \<le> y \<Longrightarrow> mathRound x \<le> mathRound y"
  by (simp add: mathRound_def floor_mono)

lemma mathRound_200: "mathRound 200 = 200"
  by (simp add: mathRound_def)

text \<open>
  C10. For every analysis, the analyzer's profit potential is at least 200: it starts at 200
  and is only multiplied by 2, 1.5, 1.3 and 1.2 before rounding, so it is never below the
  200 threshold of the trading decision.
\<close>

theorem calculateProfitPotential_at_least_200:
  "200 \<le> calculateProfitPotential a \<and> \<not> real_of_int (calculateProfitPotential a) < 200"
proof -
  have "mathRound 200 \<le> calculateProfitPotential a"
    unfolding calculateProfitPotential_def Let_def
    by (intro mathRound_mono) auto
  then have "200 \<le> calculateProfitPotential a"
    by (simp add: mathRound_200)
  then show ?thesis by simp
qed


subsection \<open>Trading decision\<close>

text \<open>
  Whatever the assessment, the decision is not to trade: the two flags it reads are
  undefined on the analysis object, so the contract check rejects what the three numeric
  checks before it let pass.
\<close>

lemma makeTradingDecision_never_accepts:
  "\<not> makeTradingDecision cfg a sentimentScore riskScore potential"
  by (simp add: makeTradingDecision_def analysisIsVerified_def analysisIsAudited_def jsNot_def)

text \<open>
  C7. The claim: the decision is false whenever the risk score exceeds 70, the profit
  potential is below 200, the contract is neither verified nor audited or the liquidity is
  below the minimum, and true otherwise, in particular for scenario C. The code at scenario
  C (risk 20, potential 600, contract verified, liquidity 50000 with a minimum of 1000),
  with a sentiment score of 80: the decision is false.
\<close>

theorem scenario_C_is_rejected:
  "\<not> (20::real) > 70 \<and> \<not> (600::real) < 200 \<and> \<not> (80::real) < 60
   \<and> isVerified (contract scenarioC)
   \<and> minLiquidity cfg0 \<le> amount (liquidity scenarioC)
   \<and> \<not> makeTradingDecision cfg0 scenarioC 80 20 600"
  by (simp add: makeTradingDecision_def analysisIsVerified_def analysisIsAudited_def
      jsNot_def scenarioC_def cfg0_def)

subsection \<open>Position size\<close>

text \<open>
  C8, as the claim states it, fails: with a minimum buy amount of 1, a profit potential of
  300 and a risk of 60 the size is 0.8, below the configured minimum.
\<close>

theorem position_size_below_minimum:
  "calculatePositionSize cfg0 300 60 = 0.8 \<and>
   calculatePositionSize cfg0 300 60 < minBuyAmount cfg0"
  by (simp add: calculatePositionSize_def cfg0_def)

text \<open>
  C8, amended. The position size is the minimum buy amount multiplied by 1.5 when the
  profit potential exceeds 500, by a further 2 when it exceeds 1000, by 1.2 when the risk
  is below 30 and by 0.8 when the risk exceeds 50, and then capped at the maximum buy
  amount. There is no lower clamp: only the upper bound holds.
\<close>

theorem calculatePositionSize_capped_above_only:
  "calculatePositionSize cfg potential rsk =
     min (minBuyAmount cfg * (if potential > 500 then 1.5 else 1)
            * (if potential > 1000 then 2 else 1)
            * (if rsk < 30 then 1.2 else 1) * (if rsk > 50 then 0.8 else 1))
         (maxBuyAmount cfg)
   \<and> calculatePositionSize cfg potential rsk \<le> maxBuyAmount cfg"
  by (simp add: calculatePositionSize_def Let_def)

subsection \<open>Candidate queue\<close>

lemma mset_insertEntry: "mset (insertEntry x ys) = add_mset x (mset ys)"
  by (induction ys) auto

lemma mset_sortQueue: "mset (sortQueue q) = mset q"
  by (induction q) (auto simp: sortQueue_def mset_insertEntry)

lemma processTokenQueue_nonempty:
  assumes "q \<noteq> []"
  shows "\<exists>e rest. processTokenQueue q = (rest, Some e) \<and> mset (e # rest) = mset q"
proof (cases "sortQueue q")
  case Nil
  then have "mset q = {#}" using mset_sortQueue [of q] by simp
  with assms show ?thesis by simp
next
  case (Cons e rest)
  then show ?thesis
    using assms mset_sortQueue [of q] by (simp add: processTokenQueue_def)
qed

lemma checksOk_promising: "performQuickAnalysis (Some checksOk) = (True, 100)"
  by (simp add: performQuickAnalysis_def checksOk_def)

lemma queueAfterC_eq:
  "queueAfterC = [\<lparr>entryToken = tokenC, entryNetwork = ''ethereum'', entryTimestamp = 3,
                   initialScore = 100\<rparr>]"
  by (simp add: queueAfterC_def analyzeAndQueueToken_def checksOk_promising cfgZero_def)

text \<open>
  A new sniper has an empty queue, and the queue is written by
  \<^verbatim>\<open>analyzeAndQueueToken\<close> and \<^verbatim>\<open>processTokenQueue\<close> only. With a
  maximum of at least 1 a submission to the empty queue leaves it empty (the candidate, if
  promising, is taken out at once), so the queue is empty before every submission.
\<close>

lemma submit_to_empty_queue:
  assumes "1 \<le> maxConcurrentTrades cfg"
  shows "fst (analyzeAndQueueToken cfg now checks [] tok net) = []"
proof (cases "performQuickAnalysis checks")
  case (Pair isPromising sc)
  then show ?thesis
    using assms
    by (simp add: analyzeAndQueueToken_def processTokenQueue_def sortQueue_def Let_def)
qed

lemma queue_stays_empty:
  "1 \<le> maxConcurrentTrades cfg \<Longrightarrow> submitAll cfg subs [] = []"
  by (induction subs) (auto simp: submit_to_empty_queue)

text \<open>
  C9, as the claim states it, fails. With a maximum of 0 the empty queue of a new sniper
  already holds the maximum number of candidates; a promising candidate submitted then is
  not rejected but appended, and so is the next one: the queue holds one, then two.
\<close>

theorem zero_capacity_queue_still_admits:
  "length ([] :: queueEntry list) = maxConcurrentTrades cfgZero
   \<and> analyzeAndQueueToken cfgZero 3 (Some checksOk) [] tokenC ''ethereum'' =
       ([\<lparr>entryToken = tokenC, entryNetwork = ''ethereum'', entryTimestamp = 3,
          initialScore = 100\<rparr>], None)
   \<and> analyzeAndQueueToken cfgZero 4 (Some checksOk) queueAfterC tokenD ''ethereum'' =
       ([\<lparr>entryToken = tokenC, entryNetwork = ''ethereum'', entryTimestamp = 3,
          initialScore = 100\<rparr>,
         \<lparr>entryToken = tokenD, entryNetwork = ''ethereum'', entryTimestamp = 4,
          initialScore = 100\<rparr>], None)"
  by (simp add: queueAfterC_eq analyzeAndQueueToken_def checksOk_promising entryAddress_def
      cfgZero_def)

text \<open>
  C9, amended. The queue has no capacity rejection: a candidate whose quick analysis is
  promising and whose address is not among the pending ones is always appended. The
  configured maximum only decides whether the queue is processed at once: when the queue
  already holds the maximum or more, it becomes the old queue followed by the candidate
  and nothing is taken out; otherwise one element is taken out for the detailed analysis
  (so that, with a maximum of at least 1, the queue of a sniper is empty again after every
  submission). In both cases the elements left together with the element taken are the old
  elements and the candidate, so no pending candidate is dropped.
\<close>

theorem queue_never_rejects_for_capacity:
  assumes "fst (performQuickAnalysis checks)"
    and "address tok \<notin> set (map (\<lambda>t. address (entryToken t)) q)"
  shows "(case analyzeAndQueueToken cfg now checks q tok net of
            (q', taken) \<Rightarrow>
              mset q' + (case taken of None \<Rightarrow> {#} | Some e \<Rightarrow> {#e#}) =
                add_mset \<lparr>entryToken = tok, entryNetwork = net, entryTimestamp = now,
                          initialScore = snd (performQuickAnalysis checks)\<rparr> (mset q)
              \<and> (if maxConcurrentTrades cfg \<le> length q
                 then q' = q @ [\<lparr>entryToken = tok, entryNetwork = net, entryTimestamp = now,
                                 initialScore = snd (performQuickAnalysis checks)\<rparr>]
                      \<and> taken = None
                 else taken \<noteq> None \<and> length q' = length q))"
proof -
  define e where "e = \<lparr>entryToken = tok, entryNetwork = net, entryTimestamp = now,
                          initialScore = snd (performQuickAnalysis checks)\<rparr>"
  obtain sc where p: "performQuickAnalysis checks = (True, sc)"
    using assms(1) by (cases "performQuickAnalysis checks") simp
  have nodup: "\<not> list_ex (\<lambda>t. entryAddress t = Some (address tok)) q"
    by (simp add: entryAddress_def list_ex_iff)
  show ?thesis
  proof (cases "maxConcurrentTrades cfg \<le> length q")
    case True
    then show ?thesis
      using nodup p by (simp add: analyzeAndQueueToken_def Let_def)
  next
    case False
    obtain x rest where r: "processTokenQueue (q @ [e]) = (rest, Some x)"
      and m: "mset (x # rest) = mset (q @ [e])"
      using processTokenQueue_nonempty [of "q @ [e]"] by auto
    have "length (x # rest) = length (q @ [e])"
      using m by (metis size_mset)
    then have "length rest = length q" by simp
    then show ?thesis
      using False nodup p r m by (simp add: analyzeAndQueueToken_def Let_def e_def)
  qed
qed

text \<open>
  The theorem at the queue a sniper with a maximum of 0 has after its first submission,
  for a second promising candidate with another address.
\<close>

theorem queue_never_rejects_for_capacity_witness:
  "fst (performQuickAnalysis (Some checksOk))
   \<and> address tokenD \<notin> set (map (\<lambda>t. address (entryToken t)) queueAfterC)
   \<and> (case analyzeAndQueueToken cfgZero 4 (Some checksOk) queueAfterC tokenD ''ethereum'' of
        (q', taken) \<Rightarrow>
          mset q' + (case taken of None \<Rightarrow> {#} | Some e \<Rightarrow> {#e#}) =
            add_mset \<lparr>entryToken = tokenD, entryNetwork = ''ethereum'', entryTimestamp = 4,
                      initialScore = snd (performQuickAnalysis (Some checksOk))\<rparr>
              (mset queueAfterC)
          \<and> (if maxConcurrentTrades cfgZero \<le> length queueAfterC
             then q' = queueAfterC @
                    [\<lparr>entryToken = tokenD, entryNetwork = ''ethereum'', entryTimestamp = 4,
                      initialScore = snd (performQuickAnalysis (Some checksOk))\<rparr>]
                  \<and> taken = None
             else taken \<noteq> None \<and> length q' = length queueAfterC))"
proof -
  have h1: "fst (performQuickAnalysis (Some checksOk))"
    by (simp add: checksOk_promising)
  have h2: "address tokenD \<notin> set (map (\<lambda>t. address (entryToken t)) queueAfterC)"
    by (simp add: queueAfterC_eq tokenC_def tokenD_def)
  show ?thesis
    using h1 h2 queue_never_rejects_for_capacity
      [OF h1 h2, where cfg = cfgZero and now = 4 and net = "''ethereum''"]
    by blast
qed

subsection \<open>Monitoring: the example position, evaluated\<close>

lemma sniper0_simps:
  "activeTrades sniper0 = [(''0xh'', trade0)]"
  "sells sniper0 = []"
  "stopLosses sniper0 = [''0xh'' \<mapsto> 70]"
  "profitTargets sniper0 =
     [''0xh'' \<mapsto> [\<lparr>percentage = 50, size' = 0.3, hit = False\<rparr>,
                  \<lparr>percentage = 100, size' = 0.3, hit = False\<rparr>,
                  \<lparr>percentage = 140, size' = 0.4, hit = False\<rparr>]]"
  by (simp_all add: sniper0_def setProfitTargets_def cfg0_def)

lemmas tick_defs = monitorActiveTrades_def monitorTrade_def checkProfitTargets_def
  checkStopLoss_def executeStopLoss_def executePartialSell_def storeTrade_def closeTrade_def
  priceAt_def trade0_def token0_def Let_def

text \<open>
  Scenario D: a tick at price 100 and a tick at price 151. The 50 percent target has fired
  once, for 0.3 of the position, and 0.7 is left.
\<close>

lemma sniperD_simps:
  "activeTrades sniperD =
     [(''0xh'', trade0\<lparr>positionSize := 0.7, currentPrice := Some 151,
                        currentProfit := Some 51\<rparr>)]"
  "sells sniperD = [(''0xT'', 0.3)]"
  "stopLosses sniperD = [''0xh'' \<mapsto> 70]"
  "profitTargets sniperD =
     [''0xh'' \<mapsto> [\<lparr>percentage = 50, size' = 0.3, hit = True\<rparr>,
                  \<lparr>percentage = 100, size' = 0.3, hit = False\<rparr>,
                  \<lparr>percentage = 140, size' = 0.4, hit = False\<rparr>]]"
  by (simp_all add: sniperD_def sniper0_simps tick_defs exOk_def)

subsection \<open>Profit targets\<close>

text \<open>
  C1. The claim: a target's hit flag becomes true only after the partial sell succeeded; a
  failed sell leaves it false and the target is tried again on the next tick. The code at
  the example position, with an executor whose first request fails: after the ticks at 100
  and 151 one request (0.3) has been sent and has failed, the position size is still 1,
  yet the 50 percent target is marked hit; the further tick at 152 sends no request, so the
  failed sell is never retried.
\<close>

theorem failed_partial_sell_marks_target_hit:
  "sells (runTicks exFirstFails [priceAt 100, priceAt 151] sniper0) = [(''0xT'', 0.3)]
   \<and> profitTargets (runTicks exFirstFails [priceAt 100, priceAt 151] sniper0) ''0xh'' =
       Some [\<lparr>percentage = 50, size' = 0.3, hit = True\<rparr>,
             \<lparr>percentage = 100, size' = 0.3, hit = False\<rparr>,
             \<lparr>percentage = 140, size' = 0.4, hit = False\<rparr>]
   \<and> map (positionSize \<circ> snd)
        (activeTrades (runTicks exFirstFails [priceAt 100, priceAt 151] sniper0)) = [1]
   \<and> sells (runTicks exFirstFails [priceAt 100, priceAt 151, priceAt 152] sniper0) =
       [(''0xT'', 0.3)]"
  by (simp add: sniper0_simps tick_defs exFirstFails_def)

lemma targetsLoop_length_eq:
  "targetsLoop ex g ts st = (ts', st') \<Longrightarrow> length ts' = length ts"
proof (induction ts arbitrary: st ts' st')
  case Nil
  then show ?case by simp
next
  case (Cons t ts)
  obtain trade sent where st: "st = (trade, sent)" by (cases st)
  from Cons.prems show ?case
    by (auto simp: st split: prod.splits if_splits dest: Cons.IH)
qed

lemma targetsLoop_append:
  "targetsLoop ex g (ts1 @ ts2) st =
     (case targetsLoop ex g ts1 st of
        (ts1', st1) \<Rightarrow>
          (case targetsLoop ex g ts2 st1 of (ts2', st2) \<Rightarrow> (ts1' @ ts2', st2)))"
proof (induction ts1 arbitrary: st)
  case Nil
  then show ?case by (simp split: prod.splits)
next
  case (Cons t ts)
  obtain trade sent where st: "st = (trade, sent)" by (cases st)
  show ?case
    by (simp add: st Cons.IH split: prod.splits)
qed

lemma targetsLoop_hit:
  "hit t \<Longrightarrow> targetsLoop ex g (t # ts) st =
     (case targetsLoop ex g ts st of (ts', st') \<Rightarrow> (t # ts', st'))"
  by (cases st) simp

lemma targetsLoop_skip:
  assumes "hit t"
  shows "targetsLoop ex g (ts1 @ t # ts2) st =
     (case targetsLoop ex g ts1 st of
        (ts1', st1) \<Rightarrow>
          (case targetsLoop ex g ts2 st1 of (ts2', st2) \<Rightarrow> (ts1' @ t # ts2', st2)))"
  using assms by (simp add: targetsLoop_append targetsLoop_hit split: prod.splits)

text \<open>
  C2. Once the hit flag of a target is true, a tick issues no sell for that target, at
  whatever price: \<^verbatim>\<open>checkProfitTargets\<close>, the only place where partial sells are
  issued, sends exactly the requests it sends for the ladder without that target, leaves
  the trade as it leaves it for that ladder, and keeps the target in its place, still hit.
  So a target fires at most once.
\<close>

theorem hit_target_is_skipped:
  assumes "profitTargets s h = Some (ts1 @ t # ts2)" and "hit t"
  shows "(case checkProfitTargets ex s h trade price gain of
            (trade', s') \<Rightarrow>
              (case checkProfitTargets ex
                      (s\<lparr>profitTargets := (profitTargets s)(h \<mapsto> ts1 @ ts2)\<rparr>)
                      h trade price gain of
                 (trade'', s'') \<Rightarrow>
                   sells s' = sells s'' \<and> trade' = trade'' \<and>
                   (case profitTargets s' h of
                      None \<Rightarrow> False
                    | Some ts' \<Rightarrow>
                        length ts' = length ts1 + 1 + length ts2 \<and> ts' ! length ts1 = t)))"
proof -
  obtain ts1' st1 where l1: "targetsLoop ex gain ts1 (trade, sells s) = (ts1', st1)"
    by (cases "targetsLoop ex gain ts1 (trade, sells s)")
  obtain ts2' trade2 sent2 where l2: "targetsLoop ex gain ts2 st1 = (ts2', trade2, sent2)"
    by (cases "targetsLoop ex gain ts2 st1")
  have n1: "length ts1' = length ts1"
    using l1 by (rule targetsLoop_length_eq)
  have n2: "length ts2' = length ts2"
    using l2 by (rule targetsLoop_length_eq)
  have a: "targetsLoop ex gain (ts1 @ t # ts2) (trade, sells s) =
             (ts1' @ t # ts2', trade2, sent2)"
    using assms(2) l1 l2 by (simp add: targetsLoop_skip)
  have b: "targetsLoop ex gain (ts1 @ ts2) (trade, sells s) = (ts1' @ ts2', trade2, sent2)"
    using l1 l2 by (simp add: targetsLoop_append)
  show ?thesis
    using assms(1) a b n1 n2 by (simp add: checkProfitTargets_def nth_append)
qed

text \<open>
  Scenario D again: after the 50 percent target has fired, the tick at price 152 (a gain
  of 52 percent) sends what it would send without that target.
\<close>

theorem hit_target_is_skipped_witness:
  "profitTargets sniperD ''0xh'' =
     Some ([] @ \<lparr>percentage = 50, size' = 0.3, hit = True\<rparr> #
             [\<lparr>percentage = 100, size' = 0.3, hit = False\<rparr>,
              \<lparr>percentage = 140, size' = 0.4, hit = False\<rparr>])
   \<and> hit \<lparr>percentage = 50, size' = 0.3, hit = True\<rparr>
   \<and> sells (snd (checkProfitTargets exOk sniperD ''0xh'' trade0 152 52)) =
     sells (snd (checkProfitTargets exOk
        (sniperD\<lparr>profitTargets := (profitTargets sniperD)(''0xh'' \<mapsto> [] @
             [\<lparr>percentage = 100, size' = 0.3, hit = False\<rparr>,
              \<lparr>percentage = 140, size' = 0.4, hit = False\<rparr>])\<rparr>) ''0xh'' trade0 152 52))"
proof -
  have h1: "profitTargets sniperD ''0xh'' =
     Some ([] @ \<lparr>percentage = 50, size' = 0.3, hit = True\<rparr> #
             [\<lparr>percentage = 100, size' = 0.3, hit = False\<rparr>,
              \<lparr>percentage = 140, size' = 0.4, hit = False\<rparr>])"
    by (simp add: sniperD_simps)
  have h2: "hit \<lparr>percentage = 50, size' = 0.3, hit = True\<rparr>" by simp
  show ?thesis
    using h1 h2 hit_target_is_skipped [OF h1 h2, of exOk trade0 152 52]
    by (auto split: prod.splits)
qed

text \<open>
  C3. The claim: every target that fires sells its fraction of the original position size,
  so that the ladder 0.3, 0.3, 0.4 leaves nothing. The code at the example position, every
  request succeeding: after a tick at 100, a tick at 250 (a gain of 150 percent) fires the
  three targets with the amounts 0.3, 0.21 and 0.196, each a fraction of the size left at
  that moment, and 0.294 of the position is left.
\<close>

theorem partial_sells_scale_with_current_size:
  "sells (runTicks exOk [priceAt 100, priceAt 250] sniper0) =
     [(''0xT'', 0.3), (''0xT'', 0.21), (''0xT'', 0.196)]
   \<and> map (positionSize \<circ> snd)
        (activeTrades (runTicks exOk [priceAt 100, priceAt 250] sniper0)) = [0.294]"
  by (simp add: sniper0_simps tick_defs exOk_def)

subsection \<open>Stop loss\<close>

text \<open>
  C4. The claim: at a price at or below the stop-loss price the whole position is sold and,
  when the sell succeeds, the position is closed and no longer monitored. The code at the
  example position as \<^verbatim>\<open>executeTrade\<close> leaves it (no tick yet, so
  \<^verbatim>\<open>currentProfit\<close> is undefined), at price 65 with stop-loss price 70 and every
  request succeeding: the whole position is sold, but the trade stays registered with its
  stop loss; the next tick at 65 sells the whole position a second time and only then
  closes the trade.
\<close>

theorem first_tick_stop_loss_leaves_trade_open:
  "sells (runTicks exOk [priceAt 65] sniper0) = [(''0xT'', 1)]
   \<and> map fst (activeTrades (runTicks exOk [priceAt 65] sniper0)) = [''0xh'']
   \<and> stopLosses (runTicks exOk [priceAt 65] sniper0) ''0xh'' = Some 70
   \<and> sells (runTicks exOk [priceAt 65, priceAt 65] sniper0) = [(''0xT'', 1), (''0xT'', 1)]
   \<and> activeTrades (runTicks exOk [priceAt 65, priceAt 65] sniper0) = []"
  by (simp add: sniper0_simps tick_defs exOk_def)









subsection \<open>Holding time\<close>





end
